theory Spec2Isabelle
  imports Complex_Main
begin

section \<open>The OpenEphys reader \<^verbatim>\<open>neo/io/OpenEphysIO.py\<close>\<close>

text \<open>
  The module holds one class, \<^verbatim>\<open>Open_Ephys_IO\<close>, whose only operation is
  \<^verbatim>\<open>read_block(self, lazy=False, cascade=True)\<close>. The method asks an external loader
  (\<^verbatim>\<open>neo.io.OpenEphys\<close>, imported as \<^verbatim>\<open>OEIO\<close>) for a header and for the sample array
  of a directory and wraps both in the objects of \<^verbatim>\<open>neo.core\<close>.

  The embedding is a function from the collaborators' answers to the outcome of the call:
  what is raised or returned, together with the sequence of collaborator calls and
  \<^verbatim>\<open>print\<close> statements executed up to that point.
\<close>

subsection \<open>Python values used by the method\<close>

text \<open>Exceptions that reach the caller. \<^verbatim>\<open>read_block\<close> has no \<^verbatim>\<open>try\<close>.\<close>

datatype error = IndexError | ValueError | LoaderError string

text \<open>
  \<^verbatim>\<open>xs[i]\<close> on a Python list or tuple with an index \<open>i \<ge> 0\<close>: out of range raises
  \<^verbatim>\<open>IndexError\<close>.
\<close>

definition getitem :: "'x list \<Rightarrow> nat \<Rightarrow> error + 'x" where
  "getitem xs i = (if i < length xs then Inr (xs ! i) else Inl IndexError)"

text \<open>\<^verbatim>\<open>str(i)\<close> for an integer \<open>i \<ge> 0\<close>: its decimal digits.\<close>

definition digit :: "nat \<Rightarrow> char" where
  "digit d = ''0123456789'' ! d"

fun str :: "nat \<Rightarrow> string" where
  "str n = (if n < 10 then [digit n] else str (n div 10) @ [digit (n mod 10)])"

declare str.simps [simp del]

text \<open>
  A numpy \<^verbatim>\<open>ndarray\<close>: its \<^verbatim>\<open>shape\<close> tuple and its elements in row-major order.
  numpy keeps the number of elements equal to the product of the shape.
\<close>

record 'a ndarray =
  shape :: "nat list"
  elems :: "'a list"

definition wf_ndarray :: "'a ndarray \<Rightarrow> bool" where
  "wf_ndarray a \<longleftrightarrow> length (elems a) = prod_list (shape a)"

text \<open>\<^verbatim>\<open>data.size\<close>: the product of the shape.\<close>

definition size_ndarray :: "'a ndarray \<Rightarrow> nat" where
  "size_ndarray a = prod_list (shape a)"

text \<open>
  \<^verbatim>\<open>data[:,i]\<close> with \<open>i \<ge> 0\<close>. Two indices on an array of fewer than two dimensions
  raise \<^verbatim>\<open>IndexError\<close> (too many indices), and so does an index beyond the second
  dimension. Otherwise the result drops the second dimension: for every index \<open>r\<close> of
  the first dimension it holds the block of elements at position \<open>(r, i)\<close>.
\<close>

definition column :: "'a ndarray \<Rightarrow> nat \<Rightarrow> error + 'a ndarray" where
  "column a i =
     (case shape a of
        m # n # rest \<Rightarrow>
          if i < n then
            (let k = prod_list rest in
             Inr \<lparr>shape = m # rest,
                  elems = concat (map (\<lambda>r. take k (drop ((r * n + i) * k) (elems a))) [0..<m])\<rparr>)
          else Inl IndexError
      | _ \<Rightarrow> Inl IndexError)"

text \<open>
  The two units of \<^verbatim>\<open>quantities\<close> the method uses. A quantity as a magnitude with a
  unit serves the concrete recording below; the method itself never looks into one.
\<close>

datatype unit = microvolt | Hz

record 'r quantity =
  magnitude :: 'r
  q_units :: unit

text \<open>The value \<^verbatim>\<open>datetime.strptime\<close> returns.\<close>

record datetime =
  year :: nat
  month :: nat
  day :: nat
  hour :: nat
  minute :: nat
  second :: nat

text \<open>The format string of lines 106, 107, 111 and 112, quotes included.\<close>

definition date_format :: string where
  "date_format = CHR 0x27 # ''%d-%b-%Y %H%M%S'' @ [CHR 0x27]"

subsection \<open>The collaborators\<close>

text \<open>
  Modelled from the spec: the header the loader returns (section 6 of the specification:
  a creation timestamp string, a format string and a sample rate); the loader module
  \<^verbatim>\<open>neo/io/OpenEphys.py\<close> is not part of the sources at hand. The method reads the keys
  \<^verbatim>\<open>'date_created'\<close>, \<^verbatim>\<open>'format'\<close> and \<^verbatim>\<open>'sampleRate'\<close>.
\<close>

record 'r header =
  date_created :: string
  format :: string
  sampleRate :: 'r

text \<open>The \<^verbatim>\<open>dtype\<close> argument; the method passes \<^verbatim>\<open>float\<close>.\<close>

datatype dtype = dtype_float | dtype_int

text \<open>
  Everything \<^verbatim>\<open>read_block\<close> calls and does not define, as parameters:
  the two loader operations (arguments: directory, and the keyword arguments in the order
  of the call), \<^verbatim>\<open>datetime.strptime\<close> (locale dependent), \<^verbatim>\<open>os.path.join\<close>
  (platform dependent) and the product of a number with a unit of \<^verbatim>\<open>quantities\<close>
  (\<^verbatim>\<open>header['sampleRate']*pq.Hz\<close> at line 131; the library converts the number to its
  own floating-point representation, \<open>'q\<close> is the type of its quantities). Each loader
  operation and \<^verbatim>\<open>strptime\<close> may raise; the product of a scalar with a unit does not.
\<close>

record ('a, 'r, 'q) collaborators =
  get_header_from_folder :: "string \<Rightarrow> int \<Rightarrow> error + 'r header"
  loadFolderToArray :: "string \<Rightarrow> string \<Rightarrow> int \<Rightarrow> dtype \<Rightarrow> error + ('a ndarray \<times> string list)"
  strptime :: "string \<Rightarrow> string \<Rightarrow> error + datetime"
  os_path_join :: "string \<Rightarrow> string \<Rightarrow> string"
  times_unit :: "'r \<Rightarrow> unit \<Rightarrow> 'q"

text \<open>
  Modelled from the spec: the objects of \<^verbatim>\<open>neo.core\<close> (section 3 of the specification),
  with the attributes the method sets; \<^verbatim>\<open>neo/core\<close> is not part of the sources at hand.
  A fresh \<^verbatim>\<open>Block\<close> has no segments and a fresh \<^verbatim>\<open>Segment\<close> no analog signals.
\<close>

record ('a, 'q) AnalogSignal =
  signal :: "'a ndarray"
  units :: unit
  sampling_rate :: 'q
  name :: string
  channel_index :: nat
  description :: string
  file_origin :: string

record ('a, 'q) Segment =
  seg_name :: string
  seg_description :: string
  seg_file_datetime :: datetime
  seg_rec_datetime :: datetime
  seg_file_origin :: string
  analogsignals :: "('a, 'q) AnalogSignal list"

record ('a, 'q) Block =
  block_name :: string
  block_description :: string
  block_file_datetime :: datetime
  block_rec_datetime :: datetime
  block_file_origin :: string
  segments :: "('a, 'q) Segment list"

text \<open>
  What a run does besides computing its result, in the order it does it: the calls to the
  loader, the calls of the three constructors of \<^verbatim>\<open>neo.core\<close> (for an analog signal with
  its channel index), each \<^verbatim>\<open>print\<close> statement with the items it prints, and the call of
  \<^verbatim>\<open>block.create_many_to_one_relationship()\<close>.
\<close>

datatype event =
    Call_get_header_from_folder string int
  | Call_loadFolderToArray string string int dtype
  | Call_Block
  | Call_Segment
  | Call_AnalogSignal nat
  | Print "string list"
  | Call_create_many_to_one_relationship

subsection \<open>\<^verbatim>\<open>read_block\<close>\<close>

text \<open>
  Lines 104 to 108 and 109 to 113: the two constructor calls, given the values the two
  \<^verbatim>\<open>strptime\<close> calls of each returned.
\<close>

definition new_block :: "string \<Rightarrow> 'r header \<Rightarrow> datetime \<Rightarrow> datetime \<Rightarrow> ('a, 'q) Block" where
  "new_block dirname hdr fd rd =
     \<lparr>block_name = date_created hdr,
      block_description = format hdr,
      block_file_datetime = fd,
      block_rec_datetime = rd,
      block_file_origin = dirname,
      segments = []\<rparr>"

definition new_segment :: "string \<Rightarrow> 'r header \<Rightarrow> datetime \<Rightarrow> datetime \<Rightarrow> ('a, 'q) Segment" where
  "new_segment dirname hdr fd rd =
     \<lparr>seg_name = date_created hdr,
      seg_description = format hdr,
      seg_file_datetime = fd,
      seg_rec_datetime = rd,
      seg_file_origin = dirname,
      analogsignals = []\<rparr>"

text \<open>Line 119: the items of the \<^verbatim>\<open>print\<close> statement.\<close>

definition empty_message :: "string \<Rightarrow> string list" where
  "empty_message dirname =
     [''Folder '', dirname, ''is empty or can'' @ [CHR 0x27] @ ''t be read'']"

text \<open>Lines 129 to 136: the arguments of the constructor in the order written.\<close>

definition make_signal ::
  "('a, 'r, 'q) collaborators \<Rightarrow> string \<Rightarrow> 'r header \<Rightarrow> 'a ndarray \<Rightarrow> string list \<Rightarrow> nat
     \<Rightarrow> error + ('a, 'q) AnalogSignal" where
  "make_signal env dirname hdr data filelist i =
     (case column data i of
        Inl e \<Rightarrow> Inl e
      | Inr col \<Rightarrow>
          (case getitem filelist i of
             Inl e \<Rightarrow> Inl e
           | Inr f \<Rightarrow>
               Inr \<lparr>signal = col,
                    units = microvolt,
                    sampling_rate = times_unit env (sampleRate hdr) Hz,
                    name = ''analog signal '' @ str i,
                    channel_index = i,
                    description = format hdr,
                    file_origin = os_path_join env dirname f\<rparr>))"

text \<open>
  Lines 128 to 137: the loop over \<^verbatim>\<open>range(n)\<close>, appending to \<^verbatim>\<open>seg.analogsignals\<close>. Each
  pass that gets as far as the constructor adds the constructor call to the events.
\<close>

fun signal_loop ::
  "('a, 'r, 'q) collaborators \<Rightarrow> string \<Rightarrow> 'r header \<Rightarrow> 'a ndarray \<Rightarrow> string list \<Rightarrow> nat list
     \<Rightarrow> ('a, 'q) Segment \<Rightarrow> event list \<Rightarrow> (error + ('a, 'q) Segment) \<times> event list" where
  "signal_loop env dirname hdr data filelist [] seg tr = (Inr seg, tr)"
| "signal_loop env dirname hdr data filelist (i # is) seg tr =
     (case make_signal env dirname hdr data filelist i of
        Inl e \<Rightarrow> (Inl e, tr)
      | Inr ana \<Rightarrow>
          signal_loop env dirname hdr data filelist is
            (seg\<lparr>analogsignals := analogsignals seg @ [ana]\<rparr>)
            (tr @ [Call_AnalogSignal i]))"

text \<open>Lines 121 to 126: the number of channels.\<close>

definition channel_count :: "'a ndarray \<Rightarrow> error + nat" where
  "channel_count data =
     (if length (shape data) = 1 then Inr 1 else getitem (shape data) 1)"

text \<open>Lines 138 to 140.\<close>

definition link_and_return ::
  "('a, 'q) Block \<Rightarrow> ('a, 'q) Segment \<Rightarrow> event list
     \<Rightarrow> (error + ('a, 'q) Block option) \<times> event list" where
  "link_and_return block seg tr =
     (Inr (Some (block\<lparr>segments := segments block @ [seg]\<rparr>)),
      tr @ [Call_create_many_to_one_relationship])"

text \<open>
  Lines 91 to 140. The result is \<open>Inl e\<close> when \<open>e\<close> is raised, \<open>Inr None\<close> for the bare
  \<^verbatim>\<open>return\<close> of line 120 and \<open>Inr (Some block)\<close> for line 140; the second component is
  the sequence of events up to there.
\<close>

definition read_block ::
  "('a, 'r, 'q) collaborators \<Rightarrow> string \<Rightarrow> bool \<Rightarrow> bool
     \<Rightarrow> (error + ('a, 'q) Block option) \<times> event list" where
  "read_block env dirname lazy cascade =
     (let tr0 = [Call_get_header_from_folder dirname 2] in
      case get_header_from_folder env dirname 2 of
        Inl e \<Rightarrow> (Inl e, tr0)
      | Inr hdr \<Rightarrow>
      (case strptime env (date_created hdr) date_format of
        Inl e \<Rightarrow> (Inl e, tr0)
      | Inr block_fd \<Rightarrow>
      (case strptime env (date_created hdr) date_format of
        Inl e \<Rightarrow> (Inl e, tr0)
      | Inr block_rd \<Rightarrow>
      (let block = new_block dirname hdr block_fd block_rd;
           tr1 = tr0 @ [Call_Block] in
      case strptime env (date_created hdr) date_format of
        Inl e \<Rightarrow> (Inl e, tr1)
      | Inr seg_fd \<Rightarrow>
      (case strptime env (date_created hdr) date_format of
        Inl e \<Rightarrow> (Inl e, tr1)
      | Inr seg_rd \<Rightarrow>
      (let seg = new_segment dirname hdr seg_fd seg_rd;
           tr2 = tr1 @ [Call_Segment] in
      if cascade then
        (let tr3 = tr2 @ [Call_loadFolderToArray dirname ''all'' 2 dtype_float] in
         case loadFolderToArray env dirname ''all'' 2 dtype_float of
           Inl e \<Rightarrow> (Inl e, tr3)
         | Inr (data, filelist) \<Rightarrow>
             if size_ndarray data = 0 then
               (Inr None, tr3 @ [Print (empty_message dirname)])
             else
               (case channel_count data of
                  Inl e \<Rightarrow> (Inl e, tr3)
                | Inr n \<Rightarrow>
                    (case signal_loop env dirname hdr data filelist [0..<n] seg tr3 of
                       (Inl e, tr4) \<Rightarrow> (Inl e, tr4)
                     | (Inr seg', tr4) \<Rightarrow> link_and_return block seg' tr4)))
      else link_and_return block seg tr2))))))"

subsection \<open>Reading the sequence of events\<close>

text \<open>The recording selector an event passes to the loader, if it is a loader call.\<close>

fun recording_of :: "event \<Rightarrow> int option" where
  "recording_of (Call_get_header_from_folder d r) = Some r"
| "recording_of (Call_loadFolderToArray d c r t) = Some r"
| "recording_of ev = None"

text \<open>The diagnostic messages of a run, in order: the items of each \<^verbatim>\<open>print\<close>.\<close>

fun diagnostics :: "event list \<Rightarrow> string list list" where
  "diagnostics [] = []"
| "diagnostics (Print items # evs) = items # diagnostics evs"
| "diagnostics (ev # evs) = diagnostics evs"

text \<open>Whether an event is a request for the sample array.\<close>

fun is_load :: "event \<Rightarrow> bool" where
  "is_load (Call_loadFolderToArray d c r t) = True"
| "is_load ev = False"

subsection \<open>A concrete recording\<close>

text \<open>
  The scenario of section 8 of the specification: a header with creation time
  \<^verbatim>\<open>'01-Jan-2020 120000'\<close>, format \<^verbatim>\<open>raw\<close> and sample rate 30000, two channels of five
  samples and the files \<^verbatim>\<open>ch1.continuous\<close>, \<^verbatim>\<open>ch2.continuous\<close>. The loader of the
  scenario knows recording 2 only. Creation time, sample array and file list are
  parameters, so that the same loader also serves the other outcomes.
\<close>

definition example_date :: string where
  "example_date = CHR 0x27 # ''01-Jan-2020 120000'' @ [CHR 0x27]"

definition example_strptime :: "string \<Rightarrow> string \<Rightarrow> error + datetime" where
  "example_strptime s f =
     (if s = example_date \<and> f = date_format
      then Inr \<lparr>year = 2020, month = 1, day = 1, hour = 12, minute = 0, second = 0\<rparr>
      else Inl ValueError)"

text \<open>\<^verbatim>\<open>posixpath.join\<close> with two arguments.\<close>

definition posix_join :: "string \<Rightarrow> string \<Rightarrow> string" where
  "posix_join a b =
     (if b \<noteq> [] \<and> hd b = CHR ''/'' then b
      else if a = [] \<or> last a = CHR ''/'' then a @ b
      else a @ ''/'' @ b)"

text \<open>
  The value of the float64 nearest to an integer (ties to even), as \<^verbatim>\<open>quantities\<close> stores
  the magnitude of \<^verbatim>\<open>n*pq.Hz\<close>; exact for integers of at most 53 bits. (Integers of 1024
  bits and more have no float64; the concrete recording has none.)
\<close>

fun excess_bits :: "nat \<Rightarrow> nat" where
  "excess_bits n = (if n < 2 ^ 53 then 0 else Suc (excess_bits (n div 2)))"

declare excess_bits.simps [simp del]

definition float64_nat :: "nat \<Rightarrow> nat" where
  "float64_nat n =
     (let e = excess_bits n; q = n div 2 ^ e; r = n mod 2 ^ e
      in (if 2 ^ e < 2 * r \<or> (2 * r = 2 ^ e \<and> odd q) then q + 1 else q) * 2 ^ e)"

definition float64 :: "int \<Rightarrow> real" where
  "float64 n = (if n < 0 then - real (float64_nat (nat (- n))) else real (float64_nat (nat n)))"

definition example_times_unit :: "int \<Rightarrow> unit \<Rightarrow> real quantity" where
  "example_times_unit x u = \<lparr>magnitude = float64 x, q_units = u\<rparr>"

definition example_header_at :: "int \<Rightarrow> string \<Rightarrow> int header" where
  "example_header_at rate created = \<lparr>date_created = created, format = ''raw'', sampleRate = rate\<rparr>"

definition example_header :: "string \<Rightarrow> int header" where
  "example_header created = example_header_at 30000 created"

definition example_env_at ::
  "int \<Rightarrow> string \<Rightarrow> real ndarray \<Rightarrow> string list \<Rightarrow> (real, int, real quantity) collaborators" where
  "example_env_at rate created data filelist =
     \<lparr>get_header_from_folder =
        (\<lambda>d r. if r = 2
               then Inr (example_header_at rate created)
               else Inl (LoaderError ''no such recording'')),
      loadFolderToArray =
        (\<lambda>d c r t. if r = 2 then Inr (data, filelist)
                   else Inl (LoaderError ''no such recording'')),
      strptime = example_strptime,
      os_path_join = posix_join,
      times_unit = example_times_unit\<rparr>"

definition example_env ::
  "string \<Rightarrow> real ndarray \<Rightarrow> string list \<Rightarrow> (real, int, real quantity) collaborators" where
  "example_env created data filelist = example_env_at 30000 created data filelist"

definition example_data :: "real ndarray" where
  "example_data = \<lparr>shape = [5, 2], elems = [0, 1, 2, 3, 4, 5, 6, 7, 8, 9]\<rparr>"

definition example_files :: "string list" where
  "example_files = [''ch1.continuous'', ''ch2.continuous'']"

text \<open>What the scenario is expected to return for the directory \<^verbatim>\<open>/data/rec\<close>.\<close>

definition example_time :: datetime where
  "example_time = \<lparr>year = 2020, month = 1, day = 1, hour = 12, minute = 0, second = 0\<rparr>"

definition example_signal_at ::
  "real \<Rightarrow> nat \<Rightarrow> real list \<Rightarrow> string \<Rightarrow> string \<Rightarrow> (real, real quantity) AnalogSignal" where
  "example_signal_at rate i samples nm origin =
     \<lparr>signal = \<lparr>shape = [5], elems = samples\<rparr>,
      units = microvolt,
      sampling_rate = \<lparr>magnitude = rate, q_units = Hz\<rparr>,
      name = nm,
      channel_index = i,
      description = ''raw'',
      file_origin = origin\<rparr>"

definition example_segment ::
  "(real, real quantity) AnalogSignal list \<Rightarrow> (real, real quantity) Segment" where
  "example_segment sigs =
     \<lparr>seg_name = example_date,
      seg_description = ''raw'',
      seg_file_datetime = example_time,
      seg_rec_datetime = example_time,
      seg_file_origin = ''/data/rec'',
      analogsignals = sigs\<rparr>"

definition example_block ::
  "(real, real quantity) AnalogSignal list \<Rightarrow> (real, real quantity) Block" where
  "example_block sigs =
     \<lparr>block_name = example_date,
      block_description = ''raw'',
      block_file_datetime = example_time,
      block_rec_datetime = example_time,
      block_file_origin = ''/data/rec'',
      segments = [example_segment sigs]\<rparr>"

definition example_signals_at :: "real \<Rightarrow> (real, real quantity) AnalogSignal list" where
  "example_signals_at rate =
     [example_signal_at rate 0 [0, 2, 4, 6, 8] ''analog signal 0'' ''/data/rec/ch1.continuous'',
      example_signal_at rate 1 [1, 3, 5, 7, 9] ''analog signal 1'' ''/data/rec/ch2.continuous'']"

definition example_signals :: "(real, real quantity) AnalogSignal list" where
  "example_signals = example_signals_at 30000"

section \<open>Facts about the embedding\<close>

subsection \<open>Columns of a matrix\<close>

lemma cell_in_range:
  fixes r n i m :: nat
  assumes "r < m" "i < n"
  shows "r * n + i < m * n"
proof -
  have "r * n + i < r * n + n" using assms by simp
  also have "\<dots> = Suc r * n" by simp
  also have "\<dots> \<le> m * n" using assms by (intro mult_le_mono1) simp
  finally show ?thesis .
qed

lemma length_column_cells:
  assumes "length xs = m * n" "i < n"
  shows "length (concat (map (\<lambda>r. take 1 (drop (r * n + i) xs)) [0..<m])) = m"
proof -
  have one: "map (\<lambda>r. length (take 1 (drop (r * n + i) xs))) [0..<m] = map (\<lambda>r. 1) [0..<m]"
  proof (rule map_cong[OF refl])
    fix r assume "r \<in> set [0..<m]"
    then have "r * n + i < length xs" using assms cell_in_range[of r m i n] by simp
    then show "length (take 1 (drop (r * n + i) xs)) = 1" by simp
  qed
  have "length (concat (map (\<lambda>r. take 1 (drop (r * n + i) xs)) [0..<m]))
        = sum_list (map (\<lambda>r. length (take 1 (drop (r * n + i) xs))) [0..<m])"
    by (simp only: length_concat map_map comp_def)
  also have "\<dots> = sum_list (map (\<lambda>r. 1) [0..<m])"
    by (simp only: one)
  also have "\<dots> = m"
    by (simp add: sum_list_triv)
  finally show ?thesis .
qed

lemma column_matrix:
  assumes "shape a = [m, n]" "i < n"
  shows "column a i = Inr \<lparr>shape = [m], elems = concat (map (\<lambda>r. take 1 (drop (r * n + i) (elems a))) [0..<m])\<rparr>"
  using assms by (simp add: column_def)

lemma column_matrix_length:
  assumes "shape a = [m, n]" "wf_ndarray a" "column a i = Inr c"
  shows "shape c = [m] \<and> length (elems c) = m"
proof -
  have "i < n" using assms by (auto simp: column_def split: if_splits)
  then show ?thesis
    using assms length_column_cells[of "elems a" m n i]
    by (auto simp: column_matrix wf_ndarray_def)
qed

lemma cell_of_matrix:
  assumes "length xs = m * n" "i < n"
  shows "concat (map (\<lambda>r. take 1 (drop (r * n + i) xs)) [0..<m]) = map (\<lambda>r. xs ! (r * n + i)) [0..<m]"
proof -
  have one: "map (\<lambda>r. take 1 (drop (r * n + i) xs)) [0..<m] = map (\<lambda>r. [xs ! (r * n + i)]) [0..<m]"
  proof (rule map_cong[OF refl])
    fix r assume "r \<in> set [0..<m]"
    then have "r * n + i < length xs" using assms cell_in_range[of r m i n] by simp
    then show "take 1 (drop (r * n + i) xs) = [xs ! (r * n + i)]"
      by (simp add: take_Suc_conv_app_nth)
  qed
  show ?thesis
    by (simp only: one concat_map_singleton)
qed

lemma column_matrix_elems:
  assumes "shape a = [m, n]" "wf_ndarray a" "column a i = Inr c"
  shows "elems c = map (\<lambda>r. elems a ! (r * n + i)) [0..<m]"
proof -
  have "i < n" using assms by (auto simp: column_def split: if_splits)
  then show ?thesis
    using assms cell_of_matrix[of "elems a" m n i]
    by (auto simp: column_matrix wf_ndarray_def)
qed

lemma column_vector: "length (shape a) = 1 \<Longrightarrow> column a i = Inl IndexError"
  by (cases "shape a") (auto simp: column_def split: list.splits)

subsection \<open>The loop\<close>

lemma str_0: "str 0 = ''0''"
  by (simp add: str.simps digit_def)

lemma str_Suc_0: "str (Suc 0) = ''1''"
  by (simp add: str.simps digit_def)

text \<open>Building a signal raises nothing but \<^verbatim>\<open>IndexError\<close>, and so does the loop.\<close>

lemma make_signal_error: "make_signal env d h data fl i = Inl e \<Longrightarrow> e = IndexError"
  by (auto simp: make_signal_def column_def getitem_def Let_def
           split: sum.splits list.splits if_splits)

lemma signal_loop_error:
  "fst (signal_loop env d h data fl js seg tr) = Inl e \<Longrightarrow> e = IndexError"
  by (induction js arbitrary: seg tr) (auto split: sum.splits dest: make_signal_error)

text \<open>
  The loop returns exactly when every signal can be built, and then it has appended
  the signals in the order of the indices.
\<close>

lemma signal_loop_Inr_iff:
  "fst (signal_loop env d h data fl js seg tr) = Inr seg' \<longleftrightarrow>
     (\<exists>as. list_all2 (\<lambda>i a. make_signal env d h data fl i = Inr a) js as \<and>
           seg' = seg\<lparr>analogsignals := analogsignals seg @ as\<rparr>)"
proof (induction js arbitrary: seg tr)
  case Nil
  show ?case by auto
next
  case (Cons j js)
  show ?case
  proof (cases "make_signal env d h data fl j")
    case (Inl e)
    then show ?thesis by (simp add: list_all2_Cons1)
  next
    case (Inr a)
    then show ?thesis by (auto simp: Cons.IH list_all2_Cons1)
  qed
qed

text \<open>
  The events of the loop: one constructor call for each index it got through, in order;
  for all of them when it returns.
\<close>

lemma signal_loop_events:
  "\<exists>k. k \<le> length js \<and>
       snd (signal_loop env d h data fl js seg tr) = tr @ map Call_AnalogSignal (take k js)"
proof (induction js arbitrary: seg tr)
  case Nil
  show ?case by simp
next
  case (Cons j js)
  show ?case
  proof (cases "make_signal env d h data fl j")
    case (Inl e)
    then have "snd (signal_loop env d h data fl (j # js) seg tr)
                 = tr @ map Call_AnalogSignal (take 0 (j # js))" by simp
    then show ?thesis by blast
  next
    case (Inr a)
    from Cons.IH[of "seg\<lparr>analogsignals := analogsignals seg @ [a]\<rparr>" "tr @ [Call_AnalogSignal j]"]
    obtain k where k: "k \<le> length js"
      "snd (signal_loop env d h data fl js (seg\<lparr>analogsignals := analogsignals seg @ [a]\<rparr>)
              (tr @ [Call_AnalogSignal j]))
         = (tr @ [Call_AnalogSignal j]) @ map Call_AnalogSignal (take k js)"
      by blast
    have "Suc k \<le> length (j # js)" using k(1) by simp
    moreover have "snd (signal_loop env d h data fl (j # js) seg tr)
                 = tr @ map Call_AnalogSignal (take (Suc k) (j # js))"
      using Inr k(2) by simp
    ultimately show ?thesis by blast
  qed
qed

lemma signal_loop_events_Inr:
  "fst (signal_loop env d h data fl js seg tr) = Inr seg' \<Longrightarrow>
   snd (signal_loop env d h data fl js seg tr) = tr @ map Call_AnalogSignal js"
proof (induction js arbitrary: seg tr)
  case Nil
  show ?case by simp
next
  case (Cons j js)
  show ?case
  proof (cases "make_signal env d h data fl j")
    case (Inl e)
    then show ?thesis using Cons.prems by simp
  next
    case (Inr a)
    then show ?thesis using Cons.prems Cons.IH by simp
  qed
qed

lemma make_signal_Inr:
  assumes "make_signal env d h data fl i = Inr a"
  shows "column data i = Inr (signal a) \<and> units a = microvolt \<and>
         sampling_rate a = times_unit env (sampleRate h) Hz \<and>
         name a = ''analog signal '' @ str i \<and> channel_index a = i \<and>
         description a = format h \<and> i < length fl \<and>
         file_origin a = os_path_join env d (fl ! i)"
  using assms
  by (auto simp: make_signal_def getitem_def split: sum.splits if_splits)

lemma make_signal_matrix:
  assumes "shape data = [m, n]" "i < n" "i < length fl"
  shows "\<exists>a. make_signal env d h data fl i = Inr a"
  using assms by (simp add: make_signal_def column_matrix getitem_def)

lemma make_signal_short:
  assumes "length fl \<le> i"
  shows "\<exists>e. make_signal env d h data fl i = Inl e"
  using assms by (simp add: make_signal_def getitem_def split: sum.splits)

lemma list_all2_choose:
  "(\<forall>i\<in>set js. \<exists>a. P i a) \<Longrightarrow> \<exists>as. list_all2 P js as"
proof (induction js)
  case Nil
  show ?case by simp
next
  case (Cons j js)
  then obtain a as where "P j a" "list_all2 P js as" by auto
  then have "list_all2 P (j # js) (a # as)" by simp
  then show ?case ..
qed

lemma signal_loop_matrix:
  assumes "shape data = [m, n]" "n \<le> length fl"
  shows "\<exists>as. list_all2 (\<lambda>i a. make_signal env d h data fl i = Inr a) [0..<n] as \<and>
          fst (signal_loop env d h data fl [0..<n] seg tr)
            = Inr (seg\<lparr>analogsignals := analogsignals seg @ as\<rparr>)"
proof -
  have "\<forall>i\<in>set [0..<n]. \<exists>a. make_signal env d h data fl i = Inr a"
  proof
    fix i assume "i \<in> set [0..<n]"
    then have "i < n" "i < length fl" using assms(2) by simp_all
    with assms(1) show "\<exists>a. make_signal env d h data fl i = Inr a"
      by (rule make_signal_matrix)
  qed
  then have "\<exists>as. list_all2 (\<lambda>i a. make_signal env d h data fl i = Inr a) [0..<n] as"
    by (rule list_all2_choose)
  then obtain as where as: "list_all2 (\<lambda>i a. make_signal env d h data fl i = Inr a) [0..<n] as"
    ..
  have "fst (signal_loop env d h data fl [0..<n] seg tr)
          = Inr (seg\<lparr>analogsignals := analogsignals seg @ as\<rparr>)"
    unfolding signal_loop_Inr_iff using as by (intro exI[of _ as]) simp
  with as show ?thesis by (intro exI[of _ as]) simp
qed

lemma signal_loop_short:
  assumes "length fl < n"
  shows "fst (signal_loop env d h data fl [0..<n] seg tr) = Inl IndexError"
proof (cases "fst (signal_loop env d h data fl [0..<n] seg tr)")
  case (Inl e)
  then show ?thesis using signal_loop_error by blast
next
  case (Inr seg')
  then obtain as where "list_all2 (\<lambda>i a. make_signal env d h data fl i = Inr a) [0..<n] as"
    unfolding signal_loop_Inr_iff by blast
  then have "\<exists>a. make_signal env d h data fl ([0..<n] ! length fl) = Inr a"
    using assms by (auto simp: list_all2_conv_all_nth)
  then have "\<exists>a. make_signal env d h data fl (length fl) = Inr a"
    using assms by simp
  then show ?thesis using make_signal_short[of fl "length fl" env d h data] by auto
qed

subsection \<open>The method, once the header is there and its creation time parsed\<close>

lemma read_block_reached:
  assumes "get_header_from_folder env dirname 2 = Inr hdr"
      and "strptime env (date_created hdr) date_format = Inr ts"
  shows "read_block env dirname lazy cascade =
     (if cascade then
        (case loadFolderToArray env dirname ''all'' 2 dtype_float of
           Inl e \<Rightarrow> (Inl e, [Call_get_header_from_folder dirname 2, Call_Block, Call_Segment,
                            Call_loadFolderToArray dirname ''all'' 2 dtype_float])
         | Inr (data, filelist) \<Rightarrow>
             if size_ndarray data = 0 then
               (Inr None, [Call_get_header_from_folder dirname 2, Call_Block, Call_Segment,
                           Call_loadFolderToArray dirname ''all'' 2 dtype_float,
                           Print (empty_message dirname)])
             else
               (case channel_count data of
                  Inl e \<Rightarrow> (Inl e, [Call_get_header_from_folder dirname 2, Call_Block, Call_Segment,
                                   Call_loadFolderToArray dirname ''all'' 2 dtype_float])
                | Inr n \<Rightarrow>
                    (case fst (signal_loop env dirname hdr data filelist [0..<n]
                                 (new_segment dirname hdr ts ts)
                                 [Call_get_header_from_folder dirname 2, Call_Block, Call_Segment,
                                  Call_loadFolderToArray dirname ''all'' 2 dtype_float]) of
                       Inl e \<Rightarrow>
                         (Inl e,
                          snd (signal_loop env dirname hdr data filelist [0..<n]
                                 (new_segment dirname hdr ts ts)
                                 [Call_get_header_from_folder dirname 2, Call_Block, Call_Segment,
                                  Call_loadFolderToArray dirname ''all'' 2 dtype_float]))
                     | Inr seg' \<Rightarrow>
                         (Inr (Some ((new_block dirname hdr ts ts)\<lparr>segments := [seg']\<rparr>)),
                          snd (signal_loop env dirname hdr data filelist [0..<n]
                                 (new_segment dirname hdr ts ts)
                                 [Call_get_header_from_folder dirname 2, Call_Block, Call_Segment,
                                  Call_loadFolderToArray dirname ''all'' 2 dtype_float])
                          @ [Call_create_many_to_one_relationship]))))
      else (Inr (Some ((new_block dirname hdr ts ts)
                         \<lparr>segments := [new_segment dirname hdr ts ts]\<rparr>)),
            [Call_get_header_from_folder dirname 2, Call_Block, Call_Segment,
             Call_create_many_to_one_relationship]))"
  using assms
  by (simp add: read_block_def link_and_return_def new_block_def Let_def
           split: sum.splits prod.splits)

lemma read_block_not_reached:
  assumes "\<not> (\<exists>hdr ts. get_header_from_folder env dirname 2 = Inr hdr \<and>
                 strptime env (date_created hdr) date_format = Inr ts)"
  shows "\<exists>e. read_block env dirname lazy cascade =
               (Inl e, [Call_get_header_from_folder dirname 2])"
  using assms
  by (auto simp add: read_block_def Let_def split: sum.splits)

subsection \<open>What a run has done when the sample array was requested, and when a block came back\<close>

text \<open>The loop asks the loader for nothing.\<close>

lemma loop_events_not_load:
  assumes "ev \<in> set (snd (signal_loop env d h data fl js seg tr))" "is_load ev"
  shows "ev \<in> set tr"
proof -
  obtain k where "snd (signal_loop env d h data fl js seg tr) = tr @ map Call_AnalogSignal (take k js)"
    using signal_loop_events[of js env d h data fl seg tr] by blast
  then have "ev \<in> set tr \<or> ev \<in> Call_AnalogSignal ` set (take k js)"
    using assms(1) by auto
  then show ?thesis using assms(2) by auto
qed

lemma sample_array_requested:
  assumes "ev \<in> set (snd (read_block env dirname lazy cascade))" "is_load ev"
  shows "cascade \<and> ev = Call_loadFolderToArray dirname ''all'' 2 dtype_float \<and>
         (\<exists>hdr ts. get_header_from_folder env dirname 2 = Inr hdr \<and>
                   strptime env (date_created hdr) date_format = Inr ts)"
proof (cases "\<exists>hdr ts. get_header_from_folder env dirname 2 = Inr hdr \<and>
                   strptime env (date_created hdr) date_format = Inr ts")
  case False
  then obtain e where "read_block env dirname lazy cascade =
               (Inl e, [Call_get_header_from_folder dirname 2])"
    using read_block_not_reached[of env dirname lazy cascade] by blast
  then show ?thesis using assms by auto
next
  case True
  then obtain hdr ts where ok: "get_header_from_folder env dirname 2 = Inr hdr"
    "strptime env (date_created hdr) date_format = Inr ts" by blast
  note rb = read_block_reached[OF ok, of lazy cascade]
  let ?base = "[Call_get_header_from_folder dirname 2, Call_Block, Call_Segment,
                Call_loadFolderToArray dirname ''all'' 2 dtype_float]"
  have c: cascade
  proof (rule ccontr)
    assume "\<not> cascade"
    then show False using rb assms by auto
  qed
  have "ev \<in> set ?base \<or> ev = Print (empty_message dirname) \<or>
        ev = Call_create_many_to_one_relationship \<or>
        (\<exists>data fl n. ev \<in> set (snd (signal_loop env dirname hdr data fl [0..<n]
                                      (new_segment dirname hdr ts ts) ?base)))"
    using assms(1) unfolding rb using c
    by (auto split: sum.splits prod.splits if_splits)
  then have "ev \<in> set ?base"
    using assms(2) loop_events_not_load by fastforce
  then have "ev = Call_loadFolderToArray dirname ''all'' 2 dtype_float"
    using assms(2) by auto
  then show ?thesis using c True by blast
qed

lemma returned_block_cascade:
  assumes "fst (read_block env dirname lazy True) = Inr (Some b)"
  shows "\<exists>hdr ts data filelist n as.
           get_header_from_folder env dirname 2 = Inr hdr \<and>
           strptime env (date_created hdr) date_format = Inr ts \<and>
           loadFolderToArray env dirname ''all'' 2 dtype_float = Inr (data, filelist) \<and>
           size_ndarray data \<noteq> 0 \<and> channel_count data = Inr n \<and>
           list_all2 (\<lambda>i a. make_signal env dirname hdr data filelist i = Inr a) [0..<n] as \<and>
           b = (new_block dirname hdr ts ts)
                 \<lparr>segments := [(new_segment dirname hdr ts ts)\<lparr>analogsignals := as\<rparr>]\<rparr> \<and>
           snd (read_block env dirname lazy True) =
             [Call_get_header_from_folder dirname 2, Call_Block, Call_Segment,
              Call_loadFolderToArray dirname ''all'' 2 dtype_float]
             @ map Call_AnalogSignal [0..<n]
             @ [Call_create_many_to_one_relationship]"
proof (cases "\<exists>hdr ts. get_header_from_folder env dirname 2 = Inr hdr \<and>
                   strptime env (date_created hdr) date_format = Inr ts")
  case False
  then obtain e where "read_block env dirname lazy True =
               (Inl e, [Call_get_header_from_folder dirname 2])"
    using read_block_not_reached[of env dirname lazy True] by blast
  then show ?thesis using assms by simp
next
  case True
  then obtain hdr ts where ok: "get_header_from_folder env dirname 2 = Inr hdr"
    "strptime env (date_created hdr) date_format = Inr ts" by blast
  note rb = read_block_reached[OF ok, of lazy True]
  let ?base = "[Call_get_header_from_folder dirname 2, Call_Block, Call_Segment,
                Call_loadFolderToArray dirname ''all'' 2 dtype_float]"
  obtain data filelist where ld: "loadFolderToArray env dirname ''all'' 2 dtype_float = Inr (data, filelist)"
    using assms rb by (cases "loadFolderToArray env dirname ''all'' 2 dtype_float") auto
  have sz: "size_ndarray data \<noteq> 0"
    using assms rb ld by (auto split: if_splits)
  obtain n where n: "channel_count data = Inr n"
    using assms rb ld sz by (cases "channel_count data") auto
  obtain seg' where lp: "fst (signal_loop env dirname hdr data filelist [0..<n]
                                (new_segment dirname hdr ts ts) ?base) = Inr seg'"
    using assms rb ld sz n
    by (cases "fst (signal_loop env dirname hdr data filelist [0..<n]
                      (new_segment dirname hdr ts ts) ?base)") auto
  obtain as where as: "list_all2 (\<lambda>i a. make_signal env dirname hdr data filelist i = Inr a) [0..<n] as"
    "seg' = (new_segment dirname hdr ts ts)\<lparr>analogsignals := analogsignals (new_segment dirname hdr ts ts) @ as\<rparr>"
    using lp unfolding signal_loop_Inr_iff by blast
  have seg': "seg' = (new_segment dirname hdr ts ts)\<lparr>analogsignals := as\<rparr>"
    using as(2) by (simp add: new_segment_def)
  have b: "b = (new_block dirname hdr ts ts)\<lparr>segments := [(new_segment dirname hdr ts ts)\<lparr>analogsignals := as\<rparr>]\<rparr>"
    using assms rb ld sz n lp seg' by simp
  have tr: "snd (read_block env dirname lazy True) =
             ?base @ map Call_AnalogSignal [0..<n] @ [Call_create_many_to_one_relationship]"
    using rb ld sz n lp signal_loop_events_Inr[OF lp] by simp
  show ?thesis
    apply (rule exI[of _ hdr], rule exI[of _ ts], rule exI[of _ data], rule exI[of _ filelist],
           rule exI[of _ n], rule exI[of _ as])
    using ok ld sz n as(1) b tr by simp
qed

lemma returned_block_no_cascade:
  assumes "fst (read_block env dirname lazy False) = Inr (Some b)"
  shows "\<exists>hdr ts.
           get_header_from_folder env dirname 2 = Inr hdr \<and>
           strptime env (date_created hdr) date_format = Inr ts \<and>
           b = (new_block dirname hdr ts ts)\<lparr>segments := [new_segment dirname hdr ts ts]\<rparr> \<and>
           snd (read_block env dirname lazy False) =
             [Call_get_header_from_folder dirname 2, Call_Block, Call_Segment,
              Call_create_many_to_one_relationship]"
proof (cases "\<exists>hdr ts. get_header_from_folder env dirname 2 = Inr hdr \<and>
                   strptime env (date_created hdr) date_format = Inr ts")
  case False
  then obtain e where "read_block env dirname lazy False =
               (Inl e, [Call_get_header_from_folder dirname 2])"
    using read_block_not_reached[of env dirname lazy False] by blast
  then show ?thesis using assms by simp
next
  case True
  then obtain hdr ts where ok: "get_header_from_folder env dirname 2 = Inr hdr"
    "strptime env (date_created hdr) date_format = Inr ts" by blast
  note rb = read_block_reached[OF ok, of lazy False]
  show ?thesis
    apply (rule exI[of _ hdr], rule exI[of _ ts])
    using assms ok rb by auto
qed

text \<open>The constructor calls of the loop are not linking calls.\<close>

lemma count_list_signals:
  "count_list (map Call_AnalogSignal js) Call_create_many_to_one_relationship = 0"
  by (induction js) simp_all

subsection \<open>One-dimensional and two-dimensional arrays\<close>

lemma channel_count_matrix: "shape data = [m, n] \<Longrightarrow> channel_count data = Inr n"
  by (simp add: channel_count_def getitem_def)

text \<open>
  A non-empty one-dimensional array: lines 121 to 123 set \<open>n = 1\<close> (the comment calls it
  a single channel), and the first pass of the loop indexes the array with two
  indices at line 129, which numpy refuses. No such run returns.
\<close>

lemma vector_raises_IndexError:
  assumes "get_header_from_folder env dirname 2 = Inr hdr"
      and "strptime env (date_created hdr) date_format = Inr ts"
      and "loadFolderToArray env dirname ''all'' 2 dtype_float = Inr (data, filelist)"
      and "length (shape data) = 1"
      and "size_ndarray data \<noteq> 0"
  shows "read_block env dirname lazy True =
           (Inl IndexError,
            [Call_get_header_from_folder dirname 2, Call_Block, Call_Segment,
             Call_loadFolderToArray dirname ''all'' 2 dtype_float])"
proof -
  have "make_signal env dirname hdr data filelist 0 = Inl IndexError"
    using column_vector[OF assms(4), of 0] by (simp add: make_signal_def)
  then have "signal_loop env dirname hdr data filelist [0..<1] (new_segment dirname hdr ts ts)
               [Call_get_header_from_folder dirname 2, Call_Block, Call_Segment,
                Call_loadFolderToArray dirname ''all'' 2 dtype_float]
             = (Inl IndexError,
                [Call_get_header_from_folder dirname 2, Call_Block, Call_Segment,
                 Call_loadFolderToArray dirname ''all'' 2 dtype_float])"
    by simp
  then show ?thesis
    unfolding read_block_reached[OF assms(1,2), of lazy True]
    using assms(3,4,5) by (simp add: channel_count_def)
qed

subsection \<open>The concrete recording, evaluated\<close>

lemma float64_30000: "float64 30000 = 30000"
  by (simp add: float64_def float64_nat_def excess_bits.simps)

lemma float64_above_53_bits: "float64 9007199254740993 = 9007199254740992"
  by (simp add: float64_def float64_nat_def excess_bits.simps)

lemmas example_simps =
  read_block_def example_env_def example_env_at_def example_header_def example_header_at_def
  example_strptime_def example_date_def example_times_unit_def float64_30000
  example_data_def example_files_def example_block_def example_signals_def example_signals_at_def
  example_signal_at_def example_segment_def example_time_def new_block_def new_segment_def
  size_ndarray_def channel_count_def getitem_def link_and_return_def make_signal_def column_def
  posix_join_def date_format_def empty_message_def str_0 str_Suc_0 upt_conv_Cons Let_def

lemma example_read:
  "read_block (example_env example_date example_data example_files) ''/data/rec'' lazy True =
     (Inr (Some (example_block example_signals)),
      [Call_get_header_from_folder ''/data/rec'' 2, Call_Block, Call_Segment,
       Call_loadFolderToArray ''/data/rec'' ''all'' 2 dtype_float,
       Call_AnalogSignal 0, Call_AnalogSignal 1,
       Call_create_many_to_one_relationship])"
  by (simp add: example_simps)

lemma example_read_metadata:
  "read_block (example_env example_date example_data example_files) ''/data/rec'' lazy False =
     (Inr (Some (example_block [])),
      [Call_get_header_from_folder ''/data/rec'' 2, Call_Block, Call_Segment,
       Call_create_many_to_one_relationship])"
  by (simp add: example_simps)

lemma example_read_empty:
  "read_block (example_env example_date \<lparr>shape = [0], elems = []\<rparr> []) ''/data/rec'' lazy True =
     (Inr None,
      [Call_get_header_from_folder ''/data/rec'' 2, Call_Block, Call_Segment,
       Call_loadFolderToArray ''/data/rec'' ''all'' 2 dtype_float,
       Print [''Folder '', ''/data/rec'', ''is empty or can'' @ [CHR 0x27] @ ''t be read'']])"
  by (simp add: example_simps)

lemma example_read_no_files:
  "read_block (example_env example_date example_data []) ''/data/rec'' lazy True =
     (Inl IndexError,
      [Call_get_header_from_folder ''/data/rec'' 2, Call_Block, Call_Segment,
       Call_loadFolderToArray ''/data/rec'' ''all'' 2 dtype_float])"
  by (simp add: example_simps)

lemma example_read_high_rate:
  "read_block (example_env_at 9007199254740993 example_date example_data example_files)
     ''/data/rec'' lazy True =
     (Inr (Some (example_block (example_signals_at 9007199254740992))),
      [Call_get_header_from_folder ''/data/rec'' 2, Call_Block, Call_Segment,
       Call_loadFolderToArray ''/data/rec'' ''all'' 2 dtype_float,
       Call_AnalogSignal 0, Call_AnalogSignal 1,
       Call_create_many_to_one_relationship])"
  by (simp add: example_simps float64_above_53_bits)

section \<open>Properties\<close>

text \<open>
  C1, as stated, fails on two inputs. A one-dimensional array of three samples: lines 121
  to 123 set \<open>n = 1\<close>, and \<^verbatim>\<open>data[:,0]\<close> of line 129 raises \<^verbatim>\<open>IndexError\<close>. The matrix of
  section 8 with a file list of one entry: \<^verbatim>\<open>filelist[1]\<close> of line 136 raises
  \<^verbatim>\<open>IndexError\<close>. In both runs the loader was asked and returned a non-empty array,
  and no block comes back.
\<close>

theorem one_signal_per_column_counterexample:
  "read_block (example_env example_date \<lparr>shape = [3], elems = [1, 2, 3]\<rparr> [''ch1.continuous''])
     ''/data/rec'' False True
   = (Inl IndexError,
      [Call_get_header_from_folder ''/data/rec'' 2, Call_Block, Call_Segment,
       Call_loadFolderToArray ''/data/rec'' ''all'' 2 dtype_float]) \<and>
   read_block (example_env example_date example_data [''ch1.continuous''])
     ''/data/rec'' False True
   = (Inl IndexError,
      [Call_get_header_from_folder ''/data/rec'' 2, Call_Block, Call_Segment,
       Call_loadFolderToArray ''/data/rec'' ''all'' 2 dtype_float,
       Call_AnalogSignal 0])"
  by (simp add: example_simps)

text \<open>
  C1, amended. Consider a run with \<^verbatim>\<open>cascade=True\<close> in which the loader is asked for the
  sample array and returns a non-empty two-dimensional array of shape \<open>(m, n)\<close> together
  with a file list of at least \<open>n\<close> entries. Then \<^verbatim>\<open>read_block\<close> returns a block with
  exactly one segment, which holds exactly \<open>n\<close> analog signals in channel order: the
  \<open>i\<close>-th has channel index \<open>i\<close> and is column \<open>i\<close> of the array, a sequence of
  \<open>m\<close> samples. (One-dimensional arrays are left out.)
\<close>

theorem one_signal_per_column:
  assumes "Call_loadFolderToArray dirname ''all'' 2 dtype_float
             \<in> set (snd (read_block env dirname lazy True))"
      and "loadFolderToArray env dirname ''all'' 2 dtype_float = Inr (data, filelist)"
      and "wf_ndarray data"
      and "shape data = [m, n]"
      and "size_ndarray data \<noteq> 0"
      and "n \<le> length filelist"
  shows "\<exists>b s. fst (read_block env dirname lazy True) = Inr (Some b) \<and>
               segments b = [s] \<and>
               length (analogsignals s) = n \<and>
               (\<forall>i<n. channel_index (analogsignals s ! i) = i \<and>
                      column data i = Inr (signal (analogsignals s ! i)) \<and>
                      shape (signal (analogsignals s ! i)) = [m] \<and>
                      length (elems (signal (analogsignals s ! i))) = m \<and>
                      elems (signal (analogsignals s ! i)) =
                        map (\<lambda>r. elems data ! (r * n + i)) [0..<m])"
proof -
  have "is_load (Call_loadFolderToArray dirname ''all'' 2 dtype_float)" by simp
  from sample_array_requested[OF assms(1) this] obtain hdr ts where
    ok: "get_header_from_folder env dirname 2 = Inr hdr"
        "strptime env (date_created hdr) date_format = Inr ts"
    by blast
  obtain as where
    as: "list_all2 (\<lambda>i a. make_signal env dirname hdr data filelist i = Inr a) [0..<n] as" and
    lp: "fst (signal_loop env dirname hdr data filelist [0..<n] (new_segment dirname hdr ts ts)
                [Call_get_header_from_folder dirname 2, Call_Block, Call_Segment,
                 Call_loadFolderToArray dirname ''all'' 2 dtype_float])
           = Inr ((new_segment dirname hdr ts ts)
                    \<lparr>analogsignals := analogsignals (new_segment dirname hdr ts ts) @ as\<rparr>)"
    using signal_loop_matrix[OF assms(4,6), of env dirname hdr "new_segment dirname hdr ts ts"
            "[Call_get_header_from_folder dirname 2, Call_Block, Call_Segment,
              Call_loadFolderToArray dirname ''all'' 2 dtype_float]"]
    by blast
  let ?s = "(new_segment dirname hdr ts ts )\<lparr>analogsignals := as\<rparr>"
  let ?b = "(new_block dirname hdr ts ts )\<lparr>segments := [?s]\<rparr>"
  have s: "(new_segment dirname hdr ts ts)
             \<lparr>analogsignals := analogsignals (new_segment dirname hdr ts ts) @ as\<rparr> = ?s"
    by (simp add: new_segment_def)
  have res: "fst (read_block env dirname lazy True) = Inr (Some ?b)"
    unfolding read_block_reached[OF ok, of lazy True]
    using assms(2,5) channel_count_matrix[OF assms(4)] lp s by simp
  have len: "length as = n" using as by (simp add: list_all2_lengthD[symmetric])
  have each: "\<forall>i<n. channel_index (as ! i) = i \<and> column data i = Inr (signal (as ! i)) \<and>
                    shape (signal (as ! i)) = [m] \<and> length (elems (signal (as ! i))) = m \<and>
                    elems (signal (as ! i)) = map (\<lambda>r. elems data ! (r * n + i)) [0..<m]"
  proof (intro allI impI)
    fix i assume "i < n"
    then have "make_signal env dirname hdr data filelist i = Inr (as ! i)"
      using as by (auto simp: list_all2_conv_all_nth)
    from make_signal_Inr[OF this] have
      c: "column data i = Inr (signal (as ! i))" and ci: "channel_index (as ! i) = i" by simp_all
    from column_matrix_length[OF assms(4,3) c] column_matrix_elems[OF assms(4,3) c] c ci
    show "channel_index (as ! i) = i \<and> column data i = Inr (signal (as ! i)) \<and>
          shape (signal (as ! i)) = [m] \<and> length (elems (signal (as ! i))) = m \<and>
          elems (signal (as ! i)) = map (\<lambda>r. elems data ! (r * n + i)) [0..<m]" by simp
  qed
  show ?thesis
    by (rule exI[of _ ?b], rule exI[of _ ?s]) (use res len each in simp)
qed

text \<open>
  The scenario of section 8: five samples on each of two channels.
\<close>

theorem one_signal_per_column_witness:
  "Call_loadFolderToArray ''/data/rec'' ''all'' 2 dtype_float
     \<in> set (snd (read_block (example_env example_date example_data example_files)
                   ''/data/rec'' False True)) \<and>
   loadFolderToArray (example_env example_date example_data example_files)
     ''/data/rec'' ''all'' 2 dtype_float = Inr (example_data, example_files) \<and>
   wf_ndarray example_data \<and> shape example_data = [5, 2] \<and> size_ndarray example_data \<noteq> 0 \<and>
   2 \<le> length example_files \<and>
   (\<exists>b s. fst (read_block (example_env example_date example_data example_files)
                  ''/data/rec'' False True) = Inr (Some b) \<and>
          segments b = [s] \<and>
          length (analogsignals s) = 2 \<and>
          (\<forall>i<2. channel_index (analogsignals s ! i) = i \<and>
                 column example_data i = Inr (signal (analogsignals s ! i)) \<and>
                 shape (signal (analogsignals s ! i)) = [5] \<and>
                 length (elems (signal (analogsignals s ! i))) = 5 \<and>
                 elems (signal (analogsignals s ! i)) =
                   map (\<lambda>r. elems example_data ! (r * 2 + i)) [0..<5]))"
proof -
  have h1: "Call_loadFolderToArray ''/data/rec'' ''all'' 2 dtype_float
     \<in> set (snd (read_block (example_env example_date example_data example_files)
                   ''/data/rec'' False True))"
    by (simp add: example_read)
  have h2: "loadFolderToArray (example_env example_date example_data example_files)
     ''/data/rec'' ''all'' 2 dtype_float = Inr (example_data, example_files)"
    by (simp add: example_env_def example_env_at_def)
  have h3: "wf_ndarray example_data" by (simp add: wf_ndarray_def example_data_def)
  have h4: "shape example_data = [5, 2]" by (simp add: example_data_def)
  have h5: "size_ndarray example_data \<noteq> 0" by (simp add: size_ndarray_def example_data_def)
  have h6: "2 \<le> length example_files" by (simp add: example_files_def)
  show ?thesis
    using h1 h2 h3 h4 h5 h6 one_signal_per_column[OF h1 h2 h3 h4 h5 h6] by simp
qed

text \<open>
  C2, as stated, fails in its last part: in the run of the loader of section 8 with an
  empty array, the \<^verbatim>\<open>Block\<close> of line 104 and the \<^verbatim>\<open>Segment\<close> of line 109 are constructed,
  before the loader is asked for the sample array. The run then prints and returns
  \<^verbatim>\<open>None\<close>.
\<close>

theorem empty_array_gives_no_result_counterexample:
  "read_block (example_env example_date \<lparr>shape = [0], elems = []\<rparr> []) ''/data/rec'' False True =
     (Inr None,
      [Call_get_header_from_folder ''/data/rec'' 2,
       Call_Block,
       Call_Segment,
       Call_loadFolderToArray ''/data/rec'' ''all'' 2 dtype_float,
       Print [''Folder '', ''/data/rec'', ''is empty or can'' @ [CHR 0x27] @ ''t be read'']])"
  by (simp add: example_simps)

text \<open>
  C2, amended. Consider a run with \<^verbatim>\<open>cascade=True\<close> in which the loader is asked for the
  sample array and returns an array of size 0. Then \<^verbatim>\<open>read_block\<close> returns \<^verbatim>\<open>None\<close>, and
  the run has printed exactly one message, whose items include the configured directory.
  No container is returned or linked, and none is constructed once the loader has been
  asked: the run consists of the header request, the construction of one \<^verbatim>\<open>Block\<close> and
  one \<^verbatim>\<open>Segment\<close> (both dropped), the sample-array request and the \<^verbatim>\<open>print\<close>.
\<close>

theorem empty_array_gives_no_result:
  assumes "Call_loadFolderToArray dirname ''all'' 2 dtype_float
             \<in> set (snd (read_block env dirname lazy True))"
      and "loadFolderToArray env dirname ''all'' 2 dtype_float = Inr (data, filelist)"
      and "size_ndarray data = 0"
  shows "fst (read_block env dirname lazy True) = Inr None \<and>
         diagnostics (snd (read_block env dirname lazy True)) =
           [[''Folder '', dirname, ''is empty or can'' @ [CHR 0x27] @ ''t be read'']] \<and>
         Call_create_many_to_one_relationship \<notin> set (snd (read_block env dirname lazy True)) \<and>
         snd (read_block env dirname lazy True) =
           [Call_get_header_from_folder dirname 2,
            Call_Block,
            Call_Segment,
            Call_loadFolderToArray dirname ''all'' 2 dtype_float,
            Print [''Folder '', dirname, ''is empty or can'' @ [CHR 0x27] @ ''t be read'']]"
proof -
  have "is_load (Call_loadFolderToArray dirname ''all'' 2 dtype_float)" by simp
  from sample_array_requested[OF assms(1) this] obtain hdr ts where
    ok: "get_header_from_folder env dirname 2 = Inr hdr"
        "strptime env (date_created hdr) date_format = Inr ts"
    by blast
  show ?thesis
    unfolding read_block_reached[OF ok, of lazy True]
    using assms(2,3) by (simp add: empty_message_def)
qed

text \<open>
  The loader of section 8 with an empty array for \<^verbatim>\<open>/data/rec\<close>.
\<close>

theorem empty_array_gives_no_result_witness:
  "Call_loadFolderToArray ''/data/rec'' ''all'' 2 dtype_float
     \<in> set (snd (read_block (example_env example_date \<lparr>shape = [0], elems = []\<rparr> [])
                   ''/data/rec'' False True)) \<and>
   loadFolderToArray (example_env example_date \<lparr>shape = [0], elems = []\<rparr> [])
     ''/data/rec'' ''all'' 2 dtype_float = Inr (\<lparr>shape = [0], elems = []\<rparr>, []) \<and>
   size_ndarray \<lparr>shape = [0], elems = [] :: real list\<rparr> = 0 \<and>
   fst (read_block (example_env example_date \<lparr>shape = [0], elems = []\<rparr> [])
          ''/data/rec'' False True) = Inr None \<and>
   diagnostics (snd (read_block (example_env example_date \<lparr>shape = [0], elems = []\<rparr> [])
                       ''/data/rec'' False True)) =
     [[''Folder '', ''/data/rec'', ''is empty or can'' @ [CHR 0x27] @ ''t be read'']] \<and>
   Call_create_many_to_one_relationship
     \<notin> set (snd (read_block (example_env example_date \<lparr>shape = [0], elems = []\<rparr> [])
                   ''/data/rec'' False True)) \<and>
   snd (read_block (example_env example_date \<lparr>shape = [0], elems = []\<rparr> [])
          ''/data/rec'' False True) =
     [Call_get_header_from_folder ''/data/rec'' 2,
      Call_Block,
      Call_Segment,
      Call_loadFolderToArray ''/data/rec'' ''all'' 2 dtype_float,
      Print [''Folder '', ''/data/rec'', ''is empty or can'' @ [CHR 0x27] @ ''t be read'']]"
proof -
  have h1: "Call_loadFolderToArray ''/data/rec'' ''all'' 2 dtype_float
     \<in> set (snd (read_block (example_env example_date \<lparr>shape = [0], elems = []\<rparr> [])
                   ''/data/rec'' False True))"
    by (simp add: example_read_empty)
  have h2: "loadFolderToArray (example_env example_date \<lparr>shape = [0], elems = []\<rparr> [])
     ''/data/rec'' ''all'' 2 dtype_float = Inr (\<lparr>shape = [0], elems = []\<rparr>, [])"
    by (simp add: example_env_def example_env_at_def)
  have h3: "size_ndarray \<lparr>shape = [0], elems = [] :: real list\<rparr> = 0"
    by (simp add: size_ndarray_def)
  show ?thesis
    using h1 h2 h3 empty_array_gives_no_result[OF h1 h2 h3] by simp
qed

text \<open>
  C3. Every run of \<^verbatim>\<open>read_block\<close> that returns a block has called
  \<^verbatim>\<open>create_many_to_one_relationship\<close> exactly once.
\<close>

theorem relationships_linked_once:
  assumes "fst (read_block env dirname lazy cascade) = Inr (Some b)"
  shows "count_list (snd (read_block env dirname lazy cascade))
           Call_create_many_to_one_relationship = 1"
proof (cases cascade)
  case True
  with assms have "fst (read_block env dirname lazy True) = Inr (Some b)" by simp
  from returned_block_cascade[OF this] obtain n where
    "snd (read_block env dirname lazy True) =
       [Call_get_header_from_folder dirname 2, Call_Block, Call_Segment,
        Call_loadFolderToArray dirname ''all'' 2 dtype_float]
       @ map Call_AnalogSignal [0..<n]
       @ [Call_create_many_to_one_relationship]"
    by blast
  then show ?thesis using True by (simp add: count_list_signals)
next
  case False
  with assms have "fst (read_block env dirname lazy False) = Inr (Some b)" by simp
  from returned_block_no_cascade[OF this] show ?thesis using False by auto
qed

text \<open>
  The scenario of section 8 returns a block, and links once.
\<close>

theorem relationships_linked_once_witness:
  "fst (read_block (example_env example_date example_data example_files) ''/data/rec'' False True)
     = Inr (Some (example_block example_signals)) \<and>
   count_list (snd (read_block (example_env example_date example_data example_files)
                      ''/data/rec'' False True))
     Call_create_many_to_one_relationship = 1"
proof -
  have h: "fst (read_block (example_env example_date example_data example_files) ''/data/rec'' False True)
     = Inr (Some (example_block example_signals))"
    by (simp add: example_read)
  show ?thesis using h relationships_linked_once[OF h] by simp
qed

text \<open>
  C4, as stated, fails when the header's creation time does not parse: with
  \<^verbatim>\<open>cascade=False\<close> too the run raises \<^verbatim>\<open>ValueError\<close> at line 106 and returns no block.
\<close>

theorem metadata_only_counterexample:
  "read_block (example_env ''2020-01-01 12:00:00'' example_data example_files)
     ''/data/rec'' False False
   = (Inl ValueError, [Call_get_header_from_folder ''/data/rec'' 2])"
  by (simp add: example_simps)

text \<open>
  C4, amended. With \<^verbatim>\<open>cascade=False\<close> no run ever asks the loader for the sample array,
  whatever the collaborators answer. If the loader returns a header and the header's
  creation time parses under the pattern \<^verbatim>\<open>'%d-%b-%Y %H%M%S'\<close> (quotes included), the run
  returns a block with exactly one segment, which has no analog signals.
\<close>

theorem metadata_only_read:
  "(\<forall>ev\<in>set (snd (read_block env dirname lazy False)). \<not> is_load ev) \<and>
   (get_header_from_folder env dirname 2 = Inr hdr \<longrightarrow>
    strptime env (date_created hdr) (CHR 0x27 # ''%d-%b-%Y %H%M%S'' @ [CHR 0x27]) = Inr ts \<longrightarrow>
    (\<exists>b s. fst (read_block env dirname lazy False) = Inr (Some b) \<and>
           segments b = [s] \<and> analogsignals s = []))"
proof
  show "\<forall>ev\<in>set (snd (read_block env dirname lazy False)). \<not> is_load ev"
    using sample_array_requested[of _ env dirname lazy False] by blast
next
  show "get_header_from_folder env dirname 2 = Inr hdr \<longrightarrow>
    strptime env (date_created hdr) (CHR 0x27 # ''%d-%b-%Y %H%M%S'' @ [CHR 0x27]) = Inr ts \<longrightarrow>
    (\<exists>b s. fst (read_block env dirname lazy False) = Inr (Some b) \<and>
           segments b = [s] \<and> analogsignals s = [])"
  proof (intro impI)
    assume ok: "get_header_from_folder env dirname 2 = Inr hdr"
      "strptime env (date_created hdr) (CHR 0x27 # ''%d-%b-%Y %H%M%S'' @ [CHR 0x27]) = Inr ts"
    then have ok2: "strptime env (date_created hdr) date_format = Inr ts"
      by (simp add: date_format_def)
    show "\<exists>b s. fst (read_block env dirname lazy False) = Inr (Some b) \<and>
           segments b = [s] \<and> analogsignals s = []"
      unfolding read_block_reached[OF ok(1) ok2, of lazy False]
      by (simp add: new_segment_def)
  qed
qed

text \<open>
  The scenario of section 8, read with \<^verbatim>\<open>cascade=False\<close>.
\<close>

theorem metadata_only_read_witness:
  "\<not> is_load (Call_get_header_from_folder ''/data/rec'' 2) \<and>
   get_header_from_folder (example_env example_date example_data example_files) ''/data/rec'' 2
     = Inr (example_header example_date) \<and>
   strptime (example_env example_date example_data example_files)
     (date_created (example_header example_date))
     (CHR 0x27 # ''%d-%b-%Y %H%M%S'' @ [CHR 0x27]) = Inr example_time \<and>
   Call_get_header_from_folder ''/data/rec'' 2
     \<in> set (snd (read_block (example_env example_date example_data example_files)
                   ''/data/rec'' False False)) \<and>
   (\<exists>b s. fst (read_block (example_env example_date example_data example_files)
                  ''/data/rec'' False False) = Inr (Some b) \<and>
          segments b = [s] \<and> analogsignals s = [])"
proof -
  have h1: "get_header_from_folder (example_env example_date example_data example_files) ''/data/rec'' 2
     = Inr (example_header example_date)"
    by (simp add: example_env_def example_env_at_def example_header_def)
  have h2: "strptime (example_env example_date example_data example_files)
     (date_created (example_header example_date))
     (CHR 0x27 # ''%d-%b-%Y %H%M%S'' @ [CHR 0x27]) = Inr example_time"
    by (simp add: example_env_def example_env_at_def example_header_def example_header_at_def example_strptime_def example_time_def
                  date_format_def)
  have h3: "Call_get_header_from_folder ''/data/rec'' 2
     \<in> set (snd (read_block (example_env example_date example_data example_files)
                   ''/data/rec'' False False))"
    by (simp add: example_read_metadata)
  show ?thesis
    using h1 h2 h3
      metadata_only_read[of "example_env example_date example_data example_files" "''/data/rec''"
                            False "example_header example_date" example_time]
    by simp
qed

text \<open>
  C5. For every block \<^verbatim>\<open>read_block\<close> returns there is one value \<open>ts\<close>, the result of
  \<^verbatim>\<open>strptime\<close> on the header's \<^verbatim>\<open>date_created\<close> string with the pattern
  \<^verbatim>\<open>'%d-%b-%Y %H%M%S'\<close> (quotes included), that is the \<^verbatim>\<open>file_datetime\<close> and the
  \<^verbatim>\<open>rec_datetime\<close> of the block and of each of its segments.
\<close>

theorem timestamps_from_one_header_field:
  assumes "fst (read_block env dirname lazy cascade) = Inr (Some b)"
  shows "\<exists>hdr ts.
           get_header_from_folder env dirname 2 = Inr hdr \<and>
           strptime env (date_created hdr) (CHR 0x27 # ''%d-%b-%Y %H%M%S'' @ [CHR 0x27]) = Inr ts \<and>
           block_file_datetime b = ts \<and> block_rec_datetime b = ts \<and>
           (\<forall>s\<in>set (segments b). seg_file_datetime s = ts \<and> seg_rec_datetime s = ts)"
proof (cases cascade)
  case True
  with assms have "fst (read_block env dirname lazy True) = Inr (Some b)" by simp
  from returned_block_cascade[OF this] obtain hdr ts as where
    "get_header_from_folder env dirname 2 = Inr hdr"
    "strptime env (date_created hdr) date_format = Inr ts"
    "b = (new_block dirname hdr ts ts)
           \<lparr>segments := [(new_segment dirname hdr ts ts)\<lparr>analogsignals := as\<rparr>]\<rparr>"
    by blast
  then show ?thesis
    by (intro exI[of _ hdr] exI[of _ ts]) (simp add: new_block_def new_segment_def date_format_def)
next
  case False
  with assms have "fst (read_block env dirname lazy False) = Inr (Some b)" by simp
  from returned_block_no_cascade[OF this] obtain hdr ts where
    "get_header_from_folder env dirname 2 = Inr hdr"
    "strptime env (date_created hdr) date_format = Inr ts"
    "b = (new_block dirname hdr ts ts)\<lparr>segments := [new_segment dirname hdr ts ts]\<rparr>"
    by blast
  then show ?thesis
    by (intro exI[of _ hdr] exI[of _ ts]) (simp add: new_block_def new_segment_def date_format_def)
qed

text \<open>
  The scenario of section 8: the four timestamps of the returned block.
\<close>

theorem timestamps_from_one_header_field_witness:
  "fst (read_block (example_env example_date example_data example_files) ''/data/rec'' False True)
     = Inr (Some (example_block example_signals)) \<and>
   (\<exists>hdr ts.
      get_header_from_folder (example_env example_date example_data example_files) ''/data/rec'' 2
        = Inr hdr \<and>
      strptime (example_env example_date example_data example_files) (date_created hdr)
        (CHR 0x27 # ''%d-%b-%Y %H%M%S'' @ [CHR 0x27]) = Inr ts \<and>
      block_file_datetime (example_block example_signals) = ts \<and>
      block_rec_datetime (example_block example_signals) = ts \<and>
      (\<forall>s\<in>set (segments (example_block example_signals)).
         seg_file_datetime s = ts \<and> seg_rec_datetime s = ts))"
proof -
  have h: "fst (read_block (example_env example_date example_data example_files) ''/data/rec'' False True)
     = Inr (Some (example_block example_signals))"
    by (simp add: example_read)
  show ?thesis using h timestamps_from_one_header_field[OF h] by simp
qed

text \<open>
  C6, as stated, fails in its sampling rate: it is not the header's number but the
  product \<^verbatim>\<open>header['sampleRate']*pq.Hz\<close>, whose magnitude is a float64. With the header of
  section 8 reporting the sample rate 9007199254740993 (an integer of 54 bits), the two
  signals of the returned block carry 9007199254740992 Hz.
\<close>

theorem signal_attributes_counterexample:
  "get_header_from_folder
     (example_env_at 9007199254740993 example_date example_data example_files) ''/data/rec'' 2
     = Inr (example_header_at 9007199254740993 example_date) \<and>
   sampleRate (example_header_at 9007199254740993 example_date) = 9007199254740993 \<and>
   fst (read_block (example_env_at 9007199254740993 example_date example_data example_files)
          ''/data/rec'' False True)
     = Inr (Some (example_block (example_signals_at 9007199254740992))) \<and>
   sampling_rate (example_signals_at 9007199254740992 ! 0)
     = \<lparr>magnitude = 9007199254740992, q_units = Hz\<rparr> \<and>
   sampling_rate (example_signals_at 9007199254740992 ! 1)
     = \<lparr>magnitude = 9007199254740992, q_units = Hz\<rparr>"
  by (simp add: example_read_high_rate)
     (simp add: example_env_at_def example_header_at_def example_signals_at_def
                example_signal_at_def)

text \<open>
  C6, amended. Every analog signal of a segment of a returned block has the unit
  microvolt, as sampling rate the product of the header's sample rate with the unit Hz
  as \<^verbatim>\<open>quantities\<close> computes it, the name \<^verbatim>\<open>analog signal\<close> followed by the decimal
  digits of its channel index, the header's format string as description, and as file
  origin \<^verbatim>\<open>os.path.join\<close> of the configured directory and the entry of the loader's file
  list at its channel index, which is within the list.
\<close>

theorem signal_attributes:
  assumes "fst (read_block env dirname lazy cascade) = Inr (Some b)"
      and "s \<in> set (segments b)"
      and "a \<in> set (analogsignals s)"
  shows "\<exists>hdr data filelist.
           get_header_from_folder env dirname 2 = Inr hdr \<and>
           loadFolderToArray env dirname ''all'' 2 dtype_float = Inr (data, filelist) \<and>
           units a = microvolt \<and>
           sampling_rate a = times_unit env (sampleRate hdr) Hz \<and>
           name a = ''analog signal '' @ str (channel_index a) \<and>
           description a = format hdr \<and>
           channel_index a < length filelist \<and>
           file_origin a = os_path_join env dirname (filelist ! channel_index a)"
proof (cases cascade)
  case False
  with assms(1) have "fst (read_block env dirname lazy False) = Inr (Some b)" by simp
  from returned_block_no_cascade[OF this] obtain hdr ts where
    "get_header_from_folder env dirname 2 = Inr hdr"
    "b = (new_block dirname hdr ts ts)\<lparr>segments := [new_segment dirname hdr ts ts]\<rparr>"
    by blast
  then have "analogsignals s = []" using assms(2) by (simp add: new_segment_def)
  then show ?thesis using assms(3) by simp
next
  case True
  with assms(1) have "fst (read_block env dirname lazy True) = Inr (Some b)" by simp
  from returned_block_cascade[OF this] obtain hdr ts data filelist n as where
    hdr: "get_header_from_folder env dirname 2 = Inr hdr" and
    ld: "loadFolderToArray env dirname ''all'' 2 dtype_float = Inr (data, filelist)" and
    as: "list_all2 (\<lambda>i a. make_signal env dirname hdr data filelist i = Inr a) [0..<n] as" and
    b: "b = (new_block dirname hdr ts ts)
              \<lparr>segments := [(new_segment dirname hdr ts ts)\<lparr>analogsignals := as\<rparr>]\<rparr>"
    by blast
  have "analogsignals s = as" using b assms(2) by simp
  then have "a \<in> set as" using assms(3) by simp
  then obtain i where "make_signal env dirname hdr data filelist i = Inr a"
    using as by (auto simp: list_all2_conv_all_nth in_set_conv_nth)
  from make_signal_Inr[OF this] hdr ld show ?thesis
    by (intro exI[of _ hdr] exI[of _ data] exI[of _ filelist]) simp
qed

text \<open>
  The scenario of section 8: the signal of the second channel.
\<close>

theorem signal_attributes_witness:
  "fst (read_block (example_env example_date example_data example_files) ''/data/rec'' False True)
     = Inr (Some (example_block example_signals)) \<and>
   example_segment example_signals \<in> set (segments (example_block example_signals)) \<and>
   example_signals ! 1 \<in> set (analogsignals (example_segment example_signals)) \<and>
   (\<exists>hdr data filelist.
      get_header_from_folder (example_env example_date example_data example_files) ''/data/rec'' 2
        = Inr hdr \<and>
      loadFolderToArray (example_env example_date example_data example_files)
        ''/data/rec'' ''all'' 2 dtype_float = Inr (data, filelist) \<and>
      units (example_signals ! 1) = microvolt \<and>
      sampling_rate (example_signals ! 1) =
        times_unit (example_env example_date example_data example_files) (sampleRate hdr) Hz \<and>
      name (example_signals ! 1) = ''analog signal '' @ str (channel_index (example_signals ! 1)) \<and>
      description (example_signals ! 1) = format hdr \<and>
      channel_index (example_signals ! 1) < length filelist \<and>
      file_origin (example_signals ! 1) =
        os_path_join (example_env example_date example_data example_files) ''/data/rec''
          (filelist ! channel_index (example_signals ! 1)))"
proof -
  have h1: "fst (read_block (example_env example_date example_data example_files) ''/data/rec'' False True)
     = Inr (Some (example_block example_signals))"
    by (simp add: example_read)
  have h2: "example_segment example_signals \<in> set (segments (example_block example_signals))"
    by (simp add: example_block_def)
  have h3: "example_signals ! 1 \<in> set (analogsignals (example_segment example_signals))"
    by (simp add: example_segment_def example_signals_def example_signals_at_def)
  show ?thesis using h1 h2 h3 signal_attributes[OF h1 h2 h3] by simp
qed

text \<open>
  C7. Every run starts with the header request for the configured directory with
  recording selector 2; every loader call of a run, header request or sample-array
  request, passes the selector 2, whatever the caller's arguments and the collaborators'
  answers; and with \<^verbatim>\<open>cascade\<close> set, the header returned and its creation time parsed,
  the sample-array request is made, with selector 2.
\<close>

theorem recording_selector_is_two:
  "hd (snd (read_block env dirname lazy cascade)) = Call_get_header_from_folder dirname 2 \<and>
   (\<forall>ev\<in>set (snd (read_block env dirname lazy cascade)).
      \<forall>k. recording_of ev = Some k \<longrightarrow> k = 2) \<and>
   (cascade \<longrightarrow> get_header_from_folder env dirname 2 = Inr h \<longrightarrow>
      strptime env (date_created h) date_format = Inr t \<longrightarrow>
      Call_loadFolderToArray dirname ''all'' 2 dtype_float
        \<in> set (snd (read_block env dirname lazy cascade)))"
proof (cases "\<exists>hdr ts. get_header_from_folder env dirname 2 = Inr hdr \<and>
                   strptime env (date_created hdr) date_format = Inr ts")
  case False
  then obtain e where rb: "read_block env dirname lazy cascade =
               (Inl e, [Call_get_header_from_folder dirname 2])"
    using read_block_not_reached[of env dirname lazy cascade] by blast
  have "\<not> (get_header_from_folder env dirname 2 = Inr h \<and>
           strptime env (date_created h) date_format = Inr t)"
    using False by blast
  then show ?thesis unfolding rb by simp
next
  case True
  then obtain hdr ts where ok: "get_header_from_folder env dirname 2 = Inr hdr"
    "strptime env (date_created hdr) date_format = Inr ts" by blast
  let ?base = "[Call_get_header_from_folder dirname 2, Call_Block, Call_Segment,
                Call_loadFolderToArray dirname ''all'' 2 dtype_float]"
  have loop: "hd (snd (signal_loop env dirname hdr data fl js seg ?base))
                = Call_get_header_from_folder dirname 2 \<and>
              hd (snd (signal_loop env dirname hdr data fl js seg ?base) @ evs)
                = Call_get_header_from_folder dirname 2 \<and>
              (\<forall>ev\<in>set (snd (signal_loop env dirname hdr data fl js seg ?base)).
                 \<forall>k. recording_of ev = Some k \<longrightarrow> k = 2) \<and>
              Call_loadFolderToArray dirname ''all'' 2 dtype_float
                \<in> set (snd (signal_loop env dirname hdr data fl js seg ?base))"
    for data fl js seg evs
  proof -
    obtain k where "snd (signal_loop env dirname hdr data fl js seg ?base)
                      = ?base @ map Call_AnalogSignal (take k js)"
      using signal_loop_events[of js env dirname hdr data fl seg ?base] by blast
    then show ?thesis by auto
  qed
  show ?thesis
    unfolding read_block_reached[OF ok, of lazy cascade]
    using loop by (simp split: sum.split prod.split)
qed

text \<open>
  The scenario of section 8: both requests are made, each with selector 2.
\<close>

theorem recording_selector_is_two_witness:
  "hd (snd (read_block (example_env example_date example_data example_files) ''/data/rec'' False True))
     = Call_get_header_from_folder ''/data/rec'' 2 \<and>
   Call_loadFolderToArray ''/data/rec'' ''all'' 2 dtype_float
     \<in> set (snd (read_block (example_env example_date example_data example_files)
                   ''/data/rec'' False True)) \<and>
   recording_of (Call_loadFolderToArray ''/data/rec'' ''all'' 2 dtype_float) = Some 2"
  using recording_selector_is_two
          [of "example_env example_date example_data example_files" "''/data/rec''" False True
              "example_header example_date" example_time]
  by (simp add: example_read)

text \<open>
  C8. The \<^verbatim>\<open>lazy\<close> flag has no effect: for every collaborator behaviour, directory and
  \<^verbatim>\<open>cascade\<close> flag, the run with \<^verbatim>\<open>lazy=True\<close> and the run with \<^verbatim>\<open>lazy=False\<close> give the
  same outcome and the same sequence of events, diagnostic output included.
\<close>

theorem lazy_has_no_effect:
  "read_block env dirname True cascade = read_block env dirname False cascade"
  by (simp add: read_block_def)

text \<open>
  C9. When the loader has returned a header whose creation-time string \<^verbatim>\<open>strptime\<close>
  rejects under the pattern \<^verbatim>\<open>'%d-%b-%Y %H%M%S'\<close> (quotes included), \<^verbatim>\<open>read_block\<close>
  raises that very exception, unchanged, for either value of \<^verbatim>\<open>lazy\<close> and \<^verbatim>\<open>cascade\<close>.
  Nothing is returned, and the run has done nothing besides the header request.
\<close>

theorem malformed_creation_time_is_raised:
  assumes "get_header_from_folder env dirname 2 = Inr hdr"
      and "strptime env (date_created hdr) (CHR 0x27 # ''%d-%b-%Y %H%M%S'' @ [CHR 0x27]) = Inl e"
  shows "read_block env dirname lazy cascade = (Inl e, [Call_get_header_from_folder dirname 2])"
  using assms by (simp add: read_block_def date_format_def)

text \<open>
  The same loader with a creation time in another notation: \<^verbatim>\<open>ValueError\<close> reaches the caller.
\<close>

theorem malformed_creation_time_is_raised_witness:
  "get_header_from_folder (example_env ''2020-01-01 12:00:00'' example_data example_files) ''/data/rec'' 2
     = Inr (example_header ''2020-01-01 12:00:00'') \<and>
   strptime (example_env ''2020-01-01 12:00:00'' example_data example_files)
     (date_created (example_header ''2020-01-01 12:00:00''))
     (CHR 0x27 # ''%d-%b-%Y %H%M%S'' @ [CHR 0x27]) = Inl ValueError \<and>
   read_block (example_env ''2020-01-01 12:00:00'' example_data example_files) ''/data/rec'' False True
     = (Inl ValueError, [Call_get_header_from_folder ''/data/rec'' 2])"
proof -
  have h1: "get_header_from_folder (example_env ''2020-01-01 12:00:00'' example_data example_files) ''/data/rec'' 2
     = Inr (example_header ''2020-01-01 12:00:00'')"
    by (simp add: example_env_def example_env_at_def example_header_def)
  have h2: "strptime (example_env ''2020-01-01 12:00:00'' example_data example_files)
     (date_created (example_header ''2020-01-01 12:00:00''))
     (CHR 0x27 # ''%d-%b-%Y %H%M%S'' @ [CHR 0x27]) = Inl ValueError"
    by (simp add: example_env_def example_env_at_def example_header_def example_header_at_def example_strptime_def example_date_def)
  show ?thesis
    using h1 h2 malformed_creation_time_is_raised[OF h1 h2, of False True] by simp
qed

text \<open>
  C10. Consider a run with \<^verbatim>\<open>cascade=True\<close> in which the loader is asked for the sample
  array and returns a non-empty two-dimensional array with \<open>n\<close> columns. Every access
  \<^verbatim>\<open>filelist[i]\<close> for \<open>i < n\<close> is in range exactly when the file list has at least
  \<open>n\<close> entries. With a shorter list \<^verbatim>\<open>read_block\<close> raises \<^verbatim>\<open>IndexError\<close>: it returns
  neither a block nor \<^verbatim>\<open>None\<close>. With at least \<open>n\<close> entries it returns a block.
\<close>

theorem file_list_bounds:
  assumes "Call_loadFolderToArray dirname ''all'' 2 dtype_float
             \<in> set (snd (read_block env dirname lazy True))"
      and "loadFolderToArray env dirname ''all'' 2 dtype_float = Inr (data, filelist)"
      and "shape data = [m, n]"
      and "size_ndarray data \<noteq> 0"
  shows "((\<forall>i<n. \<exists>f. getitem filelist i = Inr f) \<longleftrightarrow> n \<le> length filelist) \<and>
         (length filelist < n \<longrightarrow> fst (read_block env dirname lazy True) = Inl IndexError) \<and>
         (n \<le> length filelist \<longrightarrow> (\<exists>b. fst (read_block env dirname lazy True) = Inr (Some b)))"
proof -
  have "is_load (Call_loadFolderToArray dirname ''all'' 2 dtype_float)" by simp
  from sample_array_requested[OF assms(1) this] obtain hdr ts where
    ok: "get_header_from_folder env dirname 2 = Inr hdr"
        "strptime env (date_created hdr) date_format = Inr ts"
    by blast
  note rb = read_block_reached[OF ok, of lazy True]
  have bounds: "(\<forall>i<n. \<exists>f. getitem filelist i = Inr f) \<longleftrightarrow> n \<le> length filelist"
  proof
    assume a: "\<forall>i<n. \<exists>f. getitem filelist i = Inr f"
    show "n \<le> length filelist"
    proof (rule ccontr)
      assume "\<not> n \<le> length filelist"
      then have "length filelist < n" by simp
      with a obtain f where "getitem filelist (length filelist) = Inr f" by blast
      then show False by (simp add: getitem_def)
    qed
  next
    assume "n \<le> length filelist"
    then show "\<forall>i<n. \<exists>f. getitem filelist i = Inr f" by (simp add: getitem_def)
  qed
  have short: "length filelist < n \<longrightarrow> fst (read_block env dirname lazy True) = Inl IndexError"
  proof
    assume "length filelist < n"
    from signal_loop_short[OF this, of env dirname hdr data "new_segment dirname hdr ts ts"
           "[Call_get_header_from_folder dirname 2, Call_Block, Call_Segment,
             Call_loadFolderToArray dirname ''all'' 2 dtype_float]"]
    show "fst (read_block env dirname lazy True) = Inl IndexError"
      unfolding rb using assms(2,4) channel_count_matrix[OF assms(3)] by simp
  qed
  have long: "n \<le> length filelist \<longrightarrow> (\<exists>b. fst (read_block env dirname lazy True) = Inr (Some b))"
  proof
    assume "n \<le> length filelist"
    from signal_loop_matrix[OF assms(3) this, of env dirname hdr "new_segment dirname hdr ts ts"
           "[Call_get_header_from_folder dirname 2, Call_Block, Call_Segment,
             Call_loadFolderToArray dirname ''all'' 2 dtype_float]"]
    obtain seg' where
      "fst (signal_loop env dirname hdr data filelist [0..<n] (new_segment dirname hdr ts ts)
              [Call_get_header_from_folder dirname 2, Call_Block, Call_Segment,
               Call_loadFolderToArray dirname ''all'' 2 dtype_float]) = Inr seg'"
      by blast
    then show "\<exists>b. fst (read_block env dirname lazy True) = Inr (Some b)"
      unfolding rb using assms(2,4) channel_count_matrix[OF assms(3)] by simp
  qed
  from bounds short long show ?thesis by blast
qed

text \<open>
  The matrix of section 8 with an empty file list.
\<close>

theorem file_list_bounds_witness:
  "Call_loadFolderToArray ''/data/rec'' ''all'' 2 dtype_float
     \<in> set (snd (read_block (example_env example_date example_data []) ''/data/rec'' False True)) \<and>
   loadFolderToArray (example_env example_date example_data [])
     ''/data/rec'' ''all'' 2 dtype_float = Inr (example_data, []) \<and>
   shape example_data = [5, 2] \<and> size_ndarray example_data \<noteq> 0 \<and>
   length ([] :: string list) < 2 \<and>
   \<not> (\<forall>i<2. \<exists>f. getitem ([] :: string list) i = Inr f) \<and>
   fst (read_block (example_env example_date example_data []) ''/data/rec'' False True)
     = Inl IndexError"
proof -
  have h1: "Call_loadFolderToArray ''/data/rec'' ''all'' 2 dtype_float
     \<in> set (snd (read_block (example_env example_date example_data []) ''/data/rec'' False True))"
    by (simp add: example_read_no_files)
  have h2: "loadFolderToArray (example_env example_date example_data [])
     ''/data/rec'' ''all'' 2 dtype_float = Inr (example_data, [])"
    by (simp add: example_env_def example_env_at_def)
  have h3: "shape example_data = [5, 2]" by (simp add: example_data_def)
  have h4: "size_ndarray example_data \<noteq> 0" by (simp add: size_ndarray_def example_data_def)
  show ?thesis
    using h1 h2 h3 h4 file_list_bounds[OF h1 h2 h3 h4] by simp
qed

end
